theory Spec2Isabelle
  imports Complex_Main "HOL-Library.Word"
begin

section \<open>JavaScript strings\<close>

text \<open>
  A JavaScript string is a sequence of 16-bit UTF-16 code units; a character
  outside the Basic Multilingual Plane is two units (a surrogate pair).  The
  regular expressions of the extension carry no \<open>u\<close> flag, so they see code
  units, never code points.
\<close>

type_synonym codeunit = "16 word"
type_synonym jsstring = "codeunit list"

text \<open>An ASCII literal as a JavaScript string.\<close>

definition js :: "string \<Rightarrow> jsstring" where
  "js s = map of_char s"

text \<open>The class \<open>\s\<close>, which is also the set \<open>trim\<close> strips.\<close>

definition isSpace :: "codeunit \<Rightarrow> bool" where
  "isSpace c =
     (c \<in> set [0x09, 0x0A, 0x0B, 0x0C, 0x0D, 0x20, 0xA0, 0x1680, 0x2028, 0x2029,
               0x202F, 0x205F, 0x3000, 0xFEFF]
      \<or> (0x2000 \<le> c \<and> c \<le> 0x200A))"

text \<open>The class \<open>\w\<close>: \<open>[A-Za-z0-9_]\<close>.\<close>

definition isWord :: "codeunit \<Rightarrow> bool" where
  "isWord c =
     ((0x41 \<le> c \<and> c \<le> 0x5A) \<or> (0x61 \<le> c \<and> c \<le> 0x7A)
      \<or> (0x30 \<le> c \<and> c \<le> 0x39) \<or> c = 0x5F)"

definition trim :: "jsstring \<Rightarrow> jsstring" where
  "trim s = rev (dropWhile isSpace (rev (dropWhile isSpace s)))"

text \<open>\<open>s.indexOf(t)\<close>: the first index at which \<open>t\<close> starts, or \<open>-1\<close>.\<close>

fun indexOfFrom :: "nat \<Rightarrow> jsstring \<Rightarrow> jsstring \<Rightarrow> int" where
  "indexOfFrom i [] t = (if t = [] then int i else -1)"
| "indexOfFrom i (c # s) t =
     (if take (length t) (c # s) = t then int i else indexOfFrom (Suc i) s t)"

definition indexOf :: "jsstring \<Rightarrow> jsstring \<Rightarrow> int" where
  "indexOf s t = indexOfFrom 0 s t"

text \<open>\<open>s.substring(start)\<close>: a negative start counts as 0, one past the end as the length.\<close>

definition substring :: "jsstring \<Rightarrow> int \<Rightarrow> jsstring" where
  "substring s start = drop (nat start) s"

text \<open>\<open>s.split(sep)\<close> for a separator of one code unit; the empty string splits into \<open>['']\<close>.\<close>

fun split :: "codeunit \<Rightarrow> jsstring \<Rightarrow> jsstring list" where
  "split sep [] = [[]]"
| "split sep (c # s) =
     (if c = sep then [] # split sep s
      else (case split sep s of [] \<Rightarrow> [[c]] | w # ws \<Rightarrow> (c # w) # ws))"

section \<open>Regular expressions\<close>

text \<open>
  The backtracking matcher of the language, for the constructs the extension
  uses: a class of code units, sequence, alternation (left first), the greedy
  and the lazy star, capture groups and the anchor \<open>^\<close> (no \<open>m\<close> flag: start of
  input only).  A matcher takes the rest of the input, the captures so far and
  a continuation; it answers with the continuation's first success.
\<close>

datatype regex =
    Chars "codeunit \<Rightarrow> bool"
  | Seq regex regex
  | Alt regex regex
  | Star regex
  | LazyStar regex
  | Group nat regex
  | Bol
  | Eps

type_synonym captures = "nat \<rightharpoonup> jsstring"

fun matcher :: "nat \<Rightarrow> regex \<Rightarrow> jsstring \<Rightarrow> captures \<Rightarrow>
    (jsstring \<Rightarrow> captures \<Rightarrow> 'r option) \<Rightarrow> 'r option" where
  "matcher n (Chars p) s cs k =
     (case s of [] \<Rightarrow> None | c # t \<Rightarrow> if p c then k t cs else None)"
| "matcher n (Seq a b) s cs k = matcher n a s cs (\<lambda>s' cs'. matcher n b s' cs' k)"
| "matcher n (Alt a b) s cs k =
     (case matcher n a s cs k of Some x \<Rightarrow> Some x | None \<Rightarrow> matcher n b s cs k)"
| "matcher n (Star r) s cs k =
     (case matcher n r s cs
             (\<lambda>s' cs'. if length s' < length s then matcher n (Star r) s' cs' k else None) of
        Some x \<Rightarrow> Some x
      | None \<Rightarrow> k s cs)"
| "matcher n (LazyStar r) s cs k =
     (case k s cs of
        Some x \<Rightarrow> Some x
      | None \<Rightarrow>
          matcher n r s cs
            (\<lambda>s' cs'. if length s' < length s then matcher n (LazyStar r) s' cs' k else None))"
| "matcher n (Group i r) s cs k =
     matcher n r s cs (\<lambda>s' cs'. k s' (cs'(i \<mapsto> take (length s - length s') s)))"
| "matcher n Bol s cs k = (if length s = n then k s cs else None)"
| "matcher n Eps s cs k = k s cs"

text \<open>Notation of the regular expression literals.\<close>

definition chr :: "codeunit \<Rightarrow> regex" where
  "chr c = Chars (\<lambda>d. d = c)"

definition lit :: "jsstring \<Rightarrow> regex" where
  "lit s = foldr (\<lambda>c r. Seq (chr c) r) s Eps"

definition seqs :: "regex list \<Rightarrow> regex" where
  "seqs rs = foldr Seq rs Eps"

definition oneOrMore :: "regex \<Rightarrow> regex" where
  "oneOrMore r = Seq r (Star r)"

definition noneOf :: "codeunit list \<Rightarrow> regex" where
  "noneOf cs = Chars (\<lambda>d. d \<notin> set cs)"

definition oneOf :: "codeunit list \<Rightarrow> regex" where
  "oneOf cs = Chars (\<lambda>d. d \<in> set cs)"

definition spaces :: regex where
  "spaces = Star (Chars isSpace)"

text \<open>
  The result of \<open>s.match(r)\<close> for a regular expression without the \<open>g\<close> flag:
  the leftmost match, with its index, its text (element 0) and its groups.
\<close>

record rmatch =
  index :: nat
  whole :: jsstring
  captured :: captures

fun matchFrom :: "regex \<Rightarrow> nat \<Rightarrow> jsstring \<Rightarrow> rmatch option" where
  "matchFrom r n s =
     (case matcher n r s Map.empty (\<lambda>s' cs. Some (s', cs)) of
        Some (s', cs) \<Rightarrow>
          Some \<lparr>index = n - length s, whole = take (length s - length s') s, captured = cs\<rparr>
      | None \<Rightarrow> (case s of [] \<Rightarrow> None | c # t \<Rightarrow> matchFrom r n t))"

definition match :: "jsstring \<Rightarrow> regex \<Rightarrow> rmatch option" where
  "match s r = matchFrom r (length s) s"

text \<open>
  Element \<open>i\<close> of a match.  Every group of the expressions below takes part in
  every match, so the element is never \<open>undefined\<close>.
\<close>

definition grp :: "rmatch \<Rightarrow> nat \<Rightarrow> jsstring" where
  "grp mt i = (case captured mt i of Some s \<Rightarrow> s | None \<Rightarrow> [])"

text \<open>
  \<open>s.replace(r, t)\<close> for a regular expression with the \<open>g\<close> flag and a
  replacement text without \<open>$\<close>: every match from left to right is replaced;
  after an empty match the search moves on by one code unit.
\<close>

function replaceFrom :: "regex \<Rightarrow> jsstring \<Rightarrow> nat \<Rightarrow> jsstring \<Rightarrow> jsstring" where
  "replaceFrom r t n s =
     (case matcher n r s Map.empty (\<lambda>s' cs. Some s') of
        Some s' \<Rightarrow>
          if length s' < length s then t @ replaceFrom r t n s'
          else (case s of [] \<Rightarrow> t | c # u \<Rightarrow> t @ c # replaceFrom r t n u)
      | None \<Rightarrow> (case s of [] \<Rightarrow> [] | c # u \<Rightarrow> c # replaceFrom r t n u))"
  by pat_completeness auto
termination
  by (relation "measure (\<lambda>(r, t, n, s). length s)") auto

definition replaceAll :: "jsstring \<Rightarrow> regex \<Rightarrow> jsstring \<Rightarrow> jsstring" where
  "replaceAll s r t = replaceFrom r t (length s) s"

section \<open>IssueExtractor: \<open>parseActionableIssue\<close>\<close>

record issue =
  severity :: jsstring
  priority :: jsstring
  title :: jsstring
  description :: jsstring
  url :: jsstring
  timestamp :: jsstring
  accepted :: bool
  acceptanceMethod :: "jsstring option"

text \<open>
  The marker: \<open>/_(S1|S2|S3|S4)\s*([^_]+)_\s*\|\s*_([P1P2P3P4P5])\s*([^_]+)_/\<close>.
  The severity glyphs \<open>S1\<close> to \<open>S4\<close> are U+26A0 U+FE0F, U+1F9F9, U+1F4A1 and
  U+1F50D; the last three are surrogate pairs (D83E DDF9, D83D DCA1, D83D DD0D).
  The priority glyphs \<open>P1\<close> to \<open>P5\<close> are U+1F535, U+1F7E0, U+1F7E1, U+1F534 and
  U+1F7E3, the pairs D83D DD35, D83D DFE0, D83D DFE1, D83D DD34 and D83D DFE3.
  Without the \<open>u\<close> flag the class of the third group is the class of these ten
  code units, and it matches one unit.
\<close>

definition severityRegex :: regex where
  "severityRegex = seqs
     [chr 0x5F,
      Group 1 (Alt (lit [0x26A0, 0xFE0F]) (Alt (lit [0xD83E, 0xDDF9])
                 (Alt (lit [0xD83D, 0xDCA1]) (lit [0xD83D, 0xDD0D])))),
      spaces, Group 2 (oneOrMore (noneOf [0x5F])), chr 0x5F,
      spaces, chr 0x7C, spaces, chr 0x5F,
      Group 3 (oneOf [0xD83D, 0xDD35, 0xD83D, 0xDFE0, 0xD83D, 0xDFE1,
                      0xD83D, 0xDD34, 0xD83D, 0xDFE3]),
      spaces, Group 4 (oneOrMore (noneOf [0x5F])), chr 0x5F]"

text \<open>\<open>/<\/details>\s*\n\s*\*\*([^*]+)\*\*/\<close>\<close>

definition issueRegex :: regex where
  "issueRegex = seqs
     [lit (js ''</details>''), spaces, chr 0x0A, spaces, lit (js ''**''),
      Group 1 (oneOrMore (noneOf [0x2A])), lit (js ''**'')]"

text \<open>\<open>/^([\s\S]*?)(?:<details>|<!--)/\<close>\<close>

definition descAfterTitleRegex :: regex where
  "descAfterTitleRegex = seqs
     [Bol, Group 1 (LazyStar (Chars (\<lambda>c. True))),
      Alt (lit (js ''<details>'')) (lit (js ''<!--''))]"

text \<open>\<open>/\n{3,}/g\<close>\<close>

definition blankLinesRegex :: regex where
  "blankLinesRegex = seqs [chr 0x0A, chr 0x0A, chr 0x0A, Star (chr 0x0A)]"

text \<open>\<open>/\*\*([^*]+)\*\*/\<close>\<close>

definition boldRegex :: regex where
  "boldRegex = seqs [lit (js ''**''), Group 1 (oneOrMore (noneOf [0x2A])), lit (js ''**'')]"

text \<open>\<open>/^\s*\n\s*([^\n<]+)/\<close>\<close>

definition textRegex :: regex where
  "textRegex = seqs [Bol, spaces, chr 0x0A, spaces, Group 1 (oneOrMore (noneOf [0x0A, 0x3C]))]"

text \<open>\<open>/^\s*\n\s*([^\n<`]+)/\<close>\<close>

definition descRegex :: regex where
  "descRegex = seqs
     [Bol, spaces, chr 0x0A, spaces, Group 1 (oneOrMore (noneOf [0x0A, 0x3C, 0x60]))]"

text \<open>\<open>/<[^>]+>/g\<close> and \<open>/[_*`]/g\<close>\<close>

definition tagRegex :: regex where
  "tagRegex = seqs [chr 0x3C, oneOrMore (noneOf [0x3E]), chr 0x3E]"

definition markupRegex :: regex where
  "markupRegex = oneOf [0x5F, 0x2A, 0x60]"

text \<open>The title when no pattern gave one: the first non-blank line of the cleaned body.\<close>

definition fallbackTitle :: "jsstring \<Rightarrow> jsstring" where
  "fallbackTitle body =
     (let cleanBody = trim (replaceAll (replaceAll body tagRegex []) markupRegex []);
          lines = filter (\<lambda>line. trim line \<noteq> []) (split 0x0A cleanBody)
      in case lines of
           [] \<Rightarrow> []
         | l # _ \<Rightarrow> take 100 l @ (if length l > 100 then js ''...'' else []))"

text \<open>
  Title and description when the body has a bold heading after \<open></details>\<close>
  (pattern 1), and otherwise (patterns 2 and 3).
\<close>

definition afterDetails :: "jsstring \<Rightarrow> rmatch \<Rightarrow> jsstring \<times> jsstring" where
  "afterDetails body issueMatch =
     (let title1 = trim (grp issueMatch 1);
          afterTitle = substring body
            (indexOf body (whole issueMatch) + int (length (whole issueMatch)))
      in case match afterTitle descAfterTitleRegex of
           Some descMatch \<Rightarrow>
             (title1, replaceAll (trim (grp descMatch 1)) blankLinesRegex [0x0A, 0x0A])
         | None \<Rightarrow> (title1, []))"

definition afterMarker :: "jsstring \<Rightarrow> rmatch \<Rightarrow> jsstring \<times> jsstring" where
  "afterMarker body severityMatch =
     (let afterSeverity = substring body
            (indexOf body (whole severityMatch) + int (length (whole severityMatch)));
          title1 = (case match afterSeverity boldRegex of
                      Some boldMatch \<Rightarrow> trim (grp boldMatch 1)
                    | None \<Rightarrow> []);
          title2 = (case match afterSeverity textRegex of
                      Some textMatch \<Rightarrow> if title1 = [] then trim (grp textMatch 1) else title1
                    | None \<Rightarrow> title1);
          descStart = (if title2 \<noteq> []
                       then indexOf afterSeverity title2 + int (length title2) else 0);
          descText = substring afterSeverity descStart
      in case match descText descRegex of
           Some descMatch \<Rightarrow> (title2, trim (grp descMatch 1))
         | None \<Rightarrow> (title2, []))"

text \<open>The argument is \<open>None\<close> for a body that is \<open>null\<close> or \<open>undefined\<close>.\<close>

definition parseActionableIssue :: "jsstring option \<Rightarrow> issue option" where
  "parseActionableIssue body0 =
     (case body0 of
        None \<Rightarrow> None
      | Some body \<Rightarrow>
          if body = [] then None
          else (case match body severityRegex of
                  None \<Rightarrow> None
                | Some severityMatch \<Rightarrow>
                    let (title0, description0) =
                          (case match body issueRegex of
                             Some issueMatch \<Rightarrow> afterDetails body issueMatch
                           | None \<Rightarrow> afterMarker body severityMatch);
                        title1 = (if title0 = [] then fallbackTitle body else title0)
                    in Some \<lparr>severity = trim (grp severityMatch 2),
                             priority = trim (grp severityMatch 4),
                             title = title1,
                             description = description0,
                             url = [],
                             timestamp = [],
                             accepted = False,
                             acceptanceMethod = None\<rparr>))"

section \<open>RateLimitedFetcher: \<open>fetchAllPages\<close>\<close>

text \<open>
  \<open>fetchWithRetry\<close> either throws or returns the parsed body.  The body is an
  array, an object with an \<open>items\<close> array and perhaps a \<open>total_count\<close>, or
  anything else.  An endpoint gives the outcome of \<open>fetchWithRetry\<close> for each
  page number of one base URL.
\<close>

datatype error = HttpError | TypeError

datatype 'a response =
    ArrayData "'a list"
  | SearchData "'a list" "nat option"
  | OtherData

type_synonym 'a endpoint = "nat \<Rightarrow> error + 'a response"

definition per_page :: nat where
  "per_page = 100"

text \<open>
  The loop of \<open>fetchAllPages\<close>.  It need not end (an endpoint may answer every
  page with a full array), so the result is \<open>None\<close> when it does not.  Beside
  the outcome the function returns the page numbers it requested, in order.
  No caller passes a progress callback, which is left out.
\<close>

partial_function (option) fetchPagesFrom ::
    "'a endpoint \<Rightarrow> 'a list \<Rightarrow> nat \<Rightarrow> nat list \<Rightarrow> ((error + 'a list) \<times> nat list) option" where
  "fetchPagesFrom ep results page requested =
     (case ep page of
        Inl e \<Rightarrow> Some (Inl e, requested @ [page])
      | Inr data \<Rightarrow>
          (let items = (case data of ArrayData xs \<Rightarrow> xs | SearchData xs tc \<Rightarrow> xs
                        | OtherData \<Rightarrow> []);
               maxPages = (case data of
                             SearchData xs (Some total_count) \<Rightarrow>
                               Some ((min total_count 1000 + (per_page - 1)) div per_page)
                           | _ \<Rightarrow> None)
           in if items \<noteq> [] then
                if (case maxPages of Some mp \<Rightarrow> page + 1 \<le> mp
                    | None \<Rightarrow> length items = per_page)
                then fetchPagesFrom ep (results @ items) (page + 1) (requested @ [page])
                else Some (Inr (results @ items), requested @ [page])
              else Some (Inr results, requested @ [page])))"

declare fetchPagesFrom.simps [code]

definition fetchAllPages :: "'a endpoint \<Rightarrow> ((error + 'a list) \<times> nat list) option" where
  "fetchAllPages ep = fetchPagesFrom ep [] 1 []"

section \<open>CommentCollector and ThreadResolver\<close>

definition CODERABBIT_USERNAME :: jsstring where
  "CODERABBIT_USERNAME = js ''coderabbitai[bot]''"

record user =
  login :: jsstring

text \<open>A review or comment as the REST API returns it; \<open>user\<close> and \<open>body\<close> may be \<open>null\<close>.\<close>

record comment =
  c_id :: int
  c_user :: "user option"
  c_body :: "jsstring option"
  c_html_url :: jsstring
  c_created_at :: jsstring

record threadComment =
  databaseId :: int
  tc_url :: jsstring

text \<open>A review thread; \<open>nodes\<close> stands for \<open>thread.comments.nodes\<close>.\<close>

record thread =
  isResolved :: bool
  nodes :: "threadComment list"

record searchItem =
  si_number :: nat
  si_title :: jsstring
  si_state :: jsstring
  si_created_at :: jsstring
  si_closed_at :: jsstring
  si_html_url :: jsstring
  si_user :: "user option"

text \<open>The answers of the platform: one endpoint per base URL, and the thread query.\<close>

record api =
  searchEp :: "searchItem endpoint"
  reviewsEp :: "nat \<Rightarrow> comment endpoint"
  reviewCommentsEp :: "nat \<Rightarrow> comment endpoint"
  issueCommentsEp :: "nat \<Rightarrow> comment endpoint"
  graphql :: "nat \<Rightarrow> error + thread list"

text \<open>
  \<open>xs.filter(c => c.user.login === CODERABBIT_USERNAME && extra(c))\<close>: reading
  \<open>login\<close> of a \<open>null\<close> user throws.
\<close>

fun filterBot :: "(comment \<Rightarrow> bool) \<Rightarrow> comment list \<Rightarrow> error + comment list" where
  "filterBot extra [] = Inr []"
| "filterBot extra (c # cs) =
     (case c_user c of
        None \<Rightarrow> Inl TypeError
      | Some u \<Rightarrow>
          (case filterBot extra cs of
             Inl e \<Rightarrow> Inl e
           | Inr r \<Rightarrow> Inr (if login u = CODERABBIT_USERNAME \<and> extra c then c # r else r)))"

definition truthy :: "jsstring option \<Rightarrow> bool" where
  "truthy v = (case v of None \<Rightarrow> False | Some s \<Rightarrow> s \<noteq> [])"

definition rejected :: "((error + 'a) \<times> 'b) option \<Rightarrow> bool" where
  "rejected out = (case out of Some (Inl e, l) \<Rightarrow> True | _ \<Rightarrow> False)"

text \<open>
  \<open>fetchPRComments\<close>: the three fetches run under \<open>Promise.all\<close>, which rejects as
  soon as one of them does; the \<open>catch\<close> turns every exception of the body into
  the empty list.  The result is \<open>None\<close> when no fetch fails and one never ends.
\<close>

definition fetchPRComments :: "api \<Rightarrow> nat \<Rightarrow> comment list option" where
  "fetchPRComments a prNumber =
     (let o1 = fetchAllPages (reviewsEp a prNumber);
          o2 = fetchAllPages (reviewCommentsEp a prNumber);
          o3 = fetchAllPages (issueCommentsEp a prNumber)
      in if rejected o1 \<or> rejected o2 \<or> rejected o3 then Some []
         else (case (o1, o2, o3) of
                 (Some (Inr reviews, l1), Some (Inr reviewComments, l2),
                  Some (Inr issueComments, l3)) \<Rightarrow>
                   (case (filterBot (\<lambda>r. truthy (c_body r)) reviews,
                          filterBot (\<lambda>c. True) reviewComments,
                          filterBot (\<lambda>c. True) issueComments) of
                      (Inr x, Inr y, Inr z) \<Rightarrow> Some (x @ y @ z)
                    | _ \<Rightarrow> Some [])
               | _ \<Rightarrow> None))"

text \<open>\<open>fetchGraphQLThreads\<close>: every failure of the query gives the empty list.\<close>

definition fetchGraphQLThreads :: "api \<Rightarrow> nat \<Rightarrow> thread list" where
  "fetchGraphQLThreads a prNumber =
     (case graphql a prNumber of Inl e \<Rightarrow> [] | Inr threads \<Rightarrow> threads)"

section \<open>BatchOrchestrator: \<open>analyzePRs\<close>\<close>

record pullRequest =
  pr_number :: nat
  pr_title :: jsstring
  pr_state :: jsstring
  pr_created_at :: jsstring
  pr_merged_at :: jsstring
  pr_html_url :: jsstring
  pr_user :: "user option"

definition toPR :: "searchItem \<Rightarrow> pullRequest" where
  "toPR item = \<lparr>pr_number = si_number item, pr_title = si_title item,
                pr_state = si_state item, pr_created_at = si_created_at item,
                pr_merged_at = si_closed_at item, pr_html_url = si_html_url item,
                pr_user = si_user item\<rparr>"

text \<open>The object returned for a pull request with at least one issue.\<close>

record prResult =
  number :: nat
  prTitle :: jsstring
  prUrl :: jsstring
  prState :: jsstring
  author :: jsstring
  createdAt :: jsstring
  actionableIssues :: "issue list"

text \<open>The loop over the comments of one pull request.\<close>

definition decorate :: "thread list \<Rightarrow> comment \<Rightarrow> issue \<Rightarrow> issue" where
  "decorate threads c i =
     (let i1 = i\<lparr>url := c_html_url c, timestamp := c_created_at c\<rparr>;
          matchingThread = find (\<lambda>t. \<exists>tc \<in> set (nodes t).
                                    tc_url tc = c_html_url c \<or> databaseId tc = c_id c) threads
      in case matchingThread of
           Some t \<Rightarrow> if isResolved t
                     then i1\<lparr>accepted := True, acceptanceMethod := Some (js ''graphql'')\<rparr>
                     else i1
         | None \<Rightarrow> i1)"

fun collectIssues :: "thread list \<Rightarrow> comment list \<Rightarrow> issue list" where
  "collectIssues threads [] = []"
| "collectIssues threads (c # cs) =
     (case parseActionableIssue (c_body c) of
        Some i \<Rightarrow> decorate threads c i # collectIssues threads cs
      | None \<Rightarrow> collectIssues threads cs)"

text \<open>
  The body of the \<open>try\<close> block that handles one pull request: an exception
  (\<open>Inl\<close>), \<open>null\<close> (\<open>Inr None\<close>) or a result; \<open>None\<close> when it never returns.
\<close>

definition processBody :: "api \<Rightarrow> pullRequest \<Rightarrow> (error + prResult option) option" where
  "processBody a pr =
     (case fetchPRComments a (pr_number pr) of
        None \<Rightarrow> None
      | Some comments \<Rightarrow>
          (let threads = fetchGraphQLThreads a (pr_number pr)
           in if comments = [] then Some (Inr None)
              else (let issues = collectIssues threads comments
                    in if issues \<noteq> [] then
                         (case pr_user pr of
                            None \<Rightarrow> Some (Inl TypeError)
                          | Some u \<Rightarrow>
                              Some (Inr (Some \<lparr>number = pr_number pr, prTitle = pr_title pr,
                                               prUrl = pr_html_url pr, prState = pr_state pr,
                                               author = login u,
                                               createdAt = pr_created_at pr,
                                               actionableIssues = issues\<rparr>)))
                       else Some (Inr None))))"

text \<open>The callback of \<open>batch.map\<close>: the \<open>catch\<close> answers \<open>null\<close> for every exception.\<close>

definition processPR :: "api \<Rightarrow> pullRequest \<Rightarrow> prResult option option" where
  "processPR a pr =
     (case processBody a pr of
        None \<Rightarrow> None
      | Some (Inl e) \<Rightarrow> Some None
      | Some (Inr r) \<Rightarrow> Some r)"

text \<open>
  The argument of a progress callback.  The status line is kept as its kind
  and the numbers put into it; the rate-limit hint appended to it is left out.
\<close>

datatype status =
    FetchingClosedPRs
  | FoundClosedPRs nat
  | AnalyzingPRs nat nat nat
  | ProcessingResults

record progress =
  status :: status
  current :: "nat option"
  total :: "nat option"

text \<open>
  The variables of the run, with the progress callbacks made so far and the
  batches handed to \<open>Promise.all\<close> so far.
\<close>

record run =
  prsWithIssues :: "prResult list"
  totalActionableIssues :: nat
  processedCount :: nat
  callbacks :: "progress list"
  batches :: "pullRequest list list"

definition BATCH_SIZE :: nat where
  "BATCH_SIZE = 20"

text \<open>\<open>batchResults.forEach\<close>: keep the results that are not \<open>null\<close>.\<close>

fun collectResults :: "prResult option list \<Rightarrow> run \<Rightarrow> run" where
  "collectResults [] st = st"
| "collectResults (None # rs) st = collectResults rs st"
| "collectResults (Some r # rs) st =
     collectResults rs
       (st\<lparr>prsWithIssues := prsWithIssues st @ [r],
           totalActionableIssues := totalActionableIssues st + length (actionableIssues r)\<rparr>)"

text \<open>
  One turn of the loop \<open>for (i = 0; i < filteredPRs.length; i += BATCH_SIZE)\<close>:
  before the batch runs, the progress callback; after it, the collection of
  its results.  The pause between two batches takes time only.
\<close>

definition startBatch :: "pullRequest list \<Rightarrow> nat \<Rightarrow> run \<Rightarrow> run" where
  "startBatch filteredPRs i st =
     (let batch = take BATCH_SIZE (drop i filteredPRs)
      in st\<lparr>callbacks := callbacks st @
               [\<lparr>status = AnalyzingPRs (i + 1)
                            (min (i + BATCH_SIZE) (length filteredPRs))
                            (length filteredPRs),
                 current = Some (i + length batch),
                 total = Some (length filteredPRs)\<rparr>],
             batches := batches st @ [batch]\<rparr>)"

definition finishBatch :: "prResult option list \<Rightarrow> nat \<Rightarrow> run \<Rightarrow> run" where
  "finishBatch batchResults n st =
     (collectResults batchResults st)\<lparr>processedCount := processedCount st + n\<rparr>"

text \<open>
  A batch never rejects; it does not return when the handling of one of its
  pull requests does not.
\<close>

function batchLoop :: "api \<Rightarrow> pullRequest list \<Rightarrow> nat \<Rightarrow> run \<Rightarrow> run option" where
  "batchLoop a filteredPRs i st =
     (if i < length filteredPRs then
        (let batch = take BATCH_SIZE (drop i filteredPRs)
         in case those (map (processPR a) batch) of
              None \<Rightarrow> None
            | Some batchResults \<Rightarrow>
                batchLoop a filteredPRs (i + BATCH_SIZE)
                  (finishBatch batchResults (length batch) (startBatch filteredPRs i st)))
      else Some st)"
  by pat_completeness auto
termination
  by (relation "measure (\<lambda>(a, filteredPRs, i, st). length filteredPRs - i)")
     (auto simp: BATCH_SIZE_def)

declare batchLoop.simps [simp del]

text \<open>
  The result of a run.  The repository name and the date range, which are
  copied from the constructor's arguments, and the average, which is a
  formatted decimal number, are left out.
\<close>

record summary =
  totalPRs :: nat
  totalPRsWithActionableIssues :: nat
  totalIssues :: nat

record analysis =
  summary :: summary
  pullRequests :: "prResult list"

text \<open>
  \<open>analyzePRs\<close>: a failure of the search is thrown to the caller.  Beside the
  outcome the function returns the state of the run, for its callbacks and
  batches.
\<close>

definition initialRun :: run where
  "initialRun = \<lparr>prsWithIssues = [], totalActionableIssues = 0, processedCount = 0,
                 callbacks = [\<lparr>status = FetchingClosedPRs, current = None, total = None\<rparr>],
                 batches = []\<rparr>"

definition analyzePRs :: "api \<Rightarrow> ((error + analysis) \<times> run) option" where
  "analyzePRs a =
     (case fetchAllPages (searchEp a) of
        None \<Rightarrow> None
      | Some (Inl e, l) \<Rightarrow> Some (Inl e, initialRun)
      | Some (Inr searchResults, l) \<Rightarrow>
          (let filteredPRs = map toPR searchResults;
               st0 = initialRun\<lparr>callbacks := callbacks initialRun @
                        [\<lparr>status = FoundClosedPRs (length filteredPRs), current = None,
                          total = Some (length filteredPRs)\<rparr>]\<rparr>
           in case batchLoop a filteredPRs 0 st0 of
                None \<Rightarrow> None
              | Some st \<Rightarrow>
                  Some (Inr \<lparr>summary = \<lparr>totalPRs = length filteredPRs,
                                        totalPRsWithActionableIssues = length (prsWithIssues st),
                                        totalIssues = totalActionableIssues st\<rparr>,
                             pullRequests = prsWithIssues st\<rparr>,
                        st\<lparr>callbacks := callbacks st @
                             [\<lparr>status = ProcessingResults, current = None, total = None\<rparr>]\<rparr>)))"

section \<open>Plain objects used as dictionaries\<close>

text \<open>
  The extension keeps dictionaries in plain objects.  Reading \<open>obj[key]\<close> finds
  an own property or, failing that, a property inherited from
  \<open>Object.prototype\<close>, whose names are listed here; each inherited value is
  truthy and has no method \<open>push\<close>.
\<close>

definition objectPrototypeKeys :: "jsstring list" where
  "objectPrototypeKeys = map js
     [''constructor'', ''__defineGetter__'', ''__defineSetter__'', ''hasOwnProperty'',
      ''__lookupGetter__'', ''__lookupSetter__'', ''isPrototypeOf'',
      ''propertyIsEnumerable'', ''toString'', ''valueOf'', ''__proto__'',
      ''toLocaleString'']"





section \<open>SimilarityClusterer\<close>

text \<open>
  \<open>toLowerCase\<close>.  Only the code units whose lower-case form contains a unit of
  \<open>\w\<close> are mapped: the letters A to Z, U+0130 (to \<open>i\<close> and U+0307) and U+212A
  (to \<open>k\<close>).  Every other unit with a lower-case form of its own lies, like that
  form, outside \<open>\w\<close> and \<open>\s\<close>, and \<open>normalize\<close> below, the only user of this
  function, replaces the unit and its form by the same single space.
\<close>

definition lowerUnit :: "codeunit \<Rightarrow> jsstring" where
  "lowerUnit c =
     (if 0x41 \<le> c \<and> c \<le> 0x5A then [c + 0x20]
      else if c = 0x130 then [0x69, 0x307]
      else if c = 0x212A then [0x6B]
      else [c])"

definition toLowerCase :: "jsstring \<Rightarrow> jsstring" where
  "toLowerCase s = concat (map lowerUnit s)"

text \<open>
  \<open>str.toLowerCase().replace(/[^\w\s]/g, ' ').replace(/\s+/g, ' ').trim()\<close>
\<close>

definition normalize :: "jsstring \<Rightarrow> jsstring" where
  "normalize str =
     trim (replaceAll
             (replaceAll (toLowerCase str) (Chars (\<lambda>c. \<not> isWord c \<and> \<not> isSpace c)) [0x20])
             (oneOrMore (Chars isSpace)) [0x20])"

text \<open>\<open>new Set(normalize(title).split(' '))\<close>\<close>

definition tokens :: "jsstring \<Rightarrow> jsstring set" where
  "tokens t = set (split 0x20 (normalize t))"

text \<open>
  The quotient of the two sizes.  The source divides two integers in floating
  point; the model has the exact quotient.
\<close>

definition calculateSimilarity :: "jsstring \<Rightarrow> jsstring \<Rightarrow> rat" where
  "calculateSimilarity title1 title2 =
     (let words1 = tokens title1;
          words2 = tokens title2;
          intersection = {w \<in> words1. w \<in> words2};
          union = words1 \<union> words2
      in of_nat (card intersection) / of_nat (card union))"

record occurrence =
  o_url :: jsstring
  prNumber :: nat
  o_prTitle :: jsstring
  o_priority :: jsstring
  o_accepted :: bool
  o_acceptanceMethod :: "jsstring option"

record titleEntry =
  te_title :: jsstring
  count :: nat
  occurrences :: "occurrence list"

record titleGroup =
  mainTitle :: jsstring
  totalCount :: nat
  items :: "titleEntry list"
  allOccurrences :: "occurrence list"





section \<open>Title extraction and FilterEngine\<close>








section \<open>ManualOverrideStore\<close>

record override =
  ov_accepted :: bool
  ov_acceptanceMethod :: jsstring
  ov_timestamp :: jsstring

text \<open>The stored object, as the map of its own properties.\<close>

type_synonym store = "jsstring \<rightharpoonup> override"

text \<open>The test \<open>if (state[url])\<close>: an own entry is an object, an inherited value a function.\<close>

definition hasEntry :: "store \<Rightarrow> jsstring \<Rightarrow> bool" where
  "hasEntry state u = (state u \<noteq> None \<or> u \<in> set objectPrototypeKeys)"

definition toggleIssue :: "store \<Rightarrow> jsstring \<Rightarrow> issue \<Rightarrow> issue" where
  "toggleIssue state u i =
     (if url i = u then
        (if hasEntry state u
         then i\<lparr>accepted := True, acceptanceMethod := Some (js ''manual'')\<rparr>
         else i\<lparr>accepted := False, acceptanceMethod := None\<rparr>)
      else i)"

definition mapIssues :: "(issue \<Rightarrow> issue) \<Rightarrow> analysis \<Rightarrow> analysis" where
  "mapIssues f data =
     data\<lparr>pullRequests :=
            map (\<lambda>pr. pr\<lparr>actionableIssues := map f (actionableIssues pr)\<rparr>) (pullRequests data)\<rparr>"

text \<open>
  \<open>toggleManualAcceptance(url, currentData, onToggle)\<close> at the time \<open>now\<close>, on the
  stored object and the data; it returns both as it leaves them.  The callback
  \<open>onToggle\<close>, which redraws the list, is left out.
\<close>

definition toggleManualAcceptance ::
    "jsstring \<Rightarrow> jsstring \<Rightarrow> store \<times> analysis \<Rightarrow> store \<times> analysis" where
  "toggleManualAcceptance u now sd =
     (let (state, currentData) = sd;
          state' = (if hasEntry state u then state(u := None)
                    else state(u \<mapsto> \<lparr>ov_accepted = True, ov_acceptanceMethod = js ''manual'',
                                       ov_timestamp = now\<rparr>))
      in (state', mapIssues (toggleIssue state' u) currentData))"

text \<open>
  \<open>applyManualAcceptanceState\<close>.  For an inherited value both fields read are
  \<open>undefined\<close>, which is \<open>False\<close> and \<open>None\<close> here.
\<close>

definition applyOverride :: "store \<Rightarrow> issue \<Rightarrow> issue" where
  "applyOverride state i =
     (case state (url i) of
        Some ov \<Rightarrow> i\<lparr>accepted := ov_accepted ov,
                      acceptanceMethod := Some (ov_acceptanceMethod ov)\<rparr>
      | None \<Rightarrow>
          if url i \<in> set objectPrototypeKeys
          then i\<lparr>accepted := False, acceptanceMethod := None\<rparr>
          else i)"

definition applyManualAcceptanceState :: "store \<Rightarrow> analysis \<Rightarrow> analysis" where
  "applyManualAcceptanceState state data = mapIssues (applyOverride state) data"

section \<open>Example inputs\<close>

text \<open>Values on which the theorems below are evaluated.\<close>

definition exampleBody :: jsstring where
  "exampleBody =
     js ''_'' @ [0x26A0, 0xFE0F] @ js '' Potential issue_ | _'' @ [0xD83D, 0xDFE0] @
     js '' Major_'' @ [0x0A, 0x0A] @ js ''**Avoid using var**'' @ [0x0A] @
     js ''Use let or const instead.''"

definition exampleIssue ::
    "jsstring \<Rightarrow> jsstring \<Rightarrow> jsstring \<Rightarrow> bool \<Rightarrow> jsstring option \<Rightarrow> issue" where
  "exampleIssue t p u acc m =
     \<lparr>severity = js ''Potential issue'', priority = p, title = t, description = [],
      url = u, timestamp = js ''2025-01-01T00:00:00Z'', accepted = acc,
      acceptanceMethod = m\<rparr>"

definition exampleResult :: "nat \<Rightarrow> issue list \<Rightarrow> prResult" where
  "exampleResult n is =
     \<lparr>number = n, prTitle = js ''Update parser'',
      prUrl = js ''https://github.com/o/r/pull/1'', prState = js ''closed'',
      author = js ''dev'', createdAt = js ''2025-01-01T00:00:00Z'',
      actionableIssues = is\<rparr>"

definition exampleData :: "prResult list \<Rightarrow> analysis" where
  "exampleData prs =
     \<lparr>summary = \<lparr>totalPRs = length prs, totalPRsWithActionableIssues = length prs,
                 totalIssues = length (concat (map actionableIssues prs))\<rparr>,
      pullRequests = prs\<rparr>"

text \<open>The acceptance fields of all issues of the data, in order.\<close>

definition acceptanceOf :: "analysis \<Rightarrow> (bool \<times> jsstring option) list" where
  "acceptanceOf data =
     map (\<lambda>i. (accepted i, acceptanceMethod i))
         (concat (map actionableIssues (pullRequests data)))"

definition exampleItem :: "nat \<Rightarrow> user option \<Rightarrow> searchItem" where
  "exampleItem n u =
     \<lparr>si_number = n, si_title = js ''Update parser'', si_state = js ''closed'',
      si_created_at = js ''2025-01-01T00:00:00Z'', si_closed_at = js ''2025-01-02T00:00:00Z'',
      si_html_url = js ''https://github.com/o/r/pull/1'', si_user = u\<rparr>"

definition exampleComment :: comment where
  "exampleComment =
     \<lparr>c_id = 7, c_user = Some \<lparr>login = js ''coderabbitai[bot]''\<rparr>,
      c_body = Some exampleBody,
      c_html_url = js ''https://github.com/o/r/pull/1#discussion_r7'',
      c_created_at = js ''2025-01-01T00:00:00Z''\<rparr>"

text \<open>
  Three pull requests are found.  The reviews of the second cannot be
  fetched; the first and the third have one comment of the bot each, in a
  resolved thread; the third has no user.
\<close>

definition exampleApi :: api where
  "exampleApi =
     \<lparr>searchEp = (\<lambda>p. if p = 1
                       then Inr (SearchData [exampleItem 1 (Some \<lparr>login = js ''dev''\<rparr>),
                                             exampleItem 2 (Some \<lparr>login = js ''dev''\<rparr>),
                                             exampleItem 3 None] (Some 3))
                       else Inr (SearchData [] (Some 3))),
      reviewsEp = (\<lambda>n p. if n = 2 then Inl HttpError else Inr (ArrayData [])),
      reviewCommentsEp = (\<lambda>n p. if p = 1 \<and> n \<noteq> 2 then Inr (ArrayData [exampleComment])
                                else Inr (ArrayData [])),
      issueCommentsEp = (\<lambda>n p. Inr (ArrayData [])),
      graphql = (\<lambda>n. Inr [\<lparr>isResolved = True,
                            nodes = [\<lparr>databaseId = 7, tc_url = []\<rparr>]\<rparr>])\<rparr>"

text \<open>Forty-five pull requests are found, none with a comment.\<close>

definition batchApi :: api where
  "batchApi =
     \<lparr>searchEp = (\<lambda>p. if p = 1
                       then Inr (SearchData
                                   (map (\<lambda>n. exampleItem n (Some \<lparr>login = js ''dev''\<rparr>))
                                        [1..<46]) (Some 45))
                       else Inr (SearchData [] (Some 45))),
      reviewsEp = (\<lambda>n p. Inr (ArrayData [])),
      reviewCommentsEp = (\<lambda>n p. Inr (ArrayData [])),
      issueCommentsEp = (\<lambda>n p. Inr (ArrayData [])),
      graphql = (\<lambda>n. Inl HttpError)\<rparr>"

section \<open>Properties of the IssueExtractor\<close>

text \<open>
  C1.  The body of the example is \<open>_W Potential issue_ | _M Major_\<close>, a blank
  line, \<open>**Avoid using var**\<close> and the line \<open>Use let or const instead.\<close>, where
  \<open>W\<close> is U+26A0 U+FE0F and \<open>M\<close> is U+1F7E0 (the units D83D DFE0).  The parser
  returns an issue with the severity \<open>Potential issue\<close> and the title
  \<open>Avoid using var\<close>, but its priority is the low surrogate DFE0 followed by
  \<open> Major\<close>, since the class of priority glyphs consumes the high surrogate only,
  and its description is empty, since the text after the title starts with the
  closing \<open>**\<close> and not with a line break.
\<close>

theorem parse_example_result:
  "parseActionableIssue
     (Some (js ''_'' @ [0x26A0, 0xFE0F] @ js '' Potential issue_ | _'' @ [0xD83D, 0xDFE0] @
            js '' Major_'' @ [0x0A, 0x0A] @ js ''**Avoid using var**'' @ [0x0A] @
            js ''Use let or const instead.''))
   = Some \<lparr>severity = js ''Potential issue'',
            priority = [0xDFE0] @ js '' Major'',
            title = js ''Avoid using var'',
            description = [],
            url = [], timestamp = [], accepted = False, acceptanceMethod = None\<rparr>"
  by code_simp

text \<open>
  C2.  A body with the marker and the phrase \<open>addressed in commit\<close>: the parser
  returns an issue that is not accepted and has no acceptance method; it never
  looks for the phrase.
\<close>

theorem parse_addressed_in_commit_not_detected:
  "map_option (\<lambda>i. (accepted i, acceptanceMethod i))
     (parseActionableIssue
        (Some (js ''_'' @ [0x26A0, 0xFE0F] @ js '' Potential issue_ | _'' @ [0xD83D, 0xDFE0] @
               js '' Major_'' @ [0x0A, 0x0A] @ js ''**Avoid using var**'' @ [0x0A, 0x0A] @
               js ''This was addressed in commit 1a2b3c4.'')))
   = Some (False, None)"
  by code_simp

text \<open>No body makes the parser return an accepted issue.\<close>

lemma parse_never_accepts:
  "parseActionableIssue body = Some i \<Longrightarrow> \<not> accepted i \<and> acceptanceMethod i = None"
  by (auto simp: parseActionableIssue_def Let_def split: option.splits if_splits prod.splits)

section \<open>Properties of the RateLimitedFetcher\<close>

lemma fetchPagesFrom_search_step:
  assumes "ep page = Inr (SearchData its (Some t))" and "its \<noteq> []"
  shows "fetchPagesFrom ep results page requested =
     (if page + 1 \<le> (min t 1000 + 99) div 100
      then fetchPagesFrom ep (results @ its) (page + 1) (requested @ [page])
      else Some (Inr (results @ its), requested @ [page]))"
  using assms by (subst fetchPagesFrom.simps) (simp add: per_page_def)

lemma fetchPagesFrom_search:
  assumes "\<forall>p. page \<le> p \<and> p \<le> mp \<longrightarrow>
             (\<exists>its. its \<noteq> [] \<and> ep p = Inr (SearchData its (Some t)))"
    and "mp = (min t 1000 + 99) div 100" and "page \<le> mp"
  shows "\<exists>results'. fetchPagesFrom ep results page requested =
           Some (Inr results', requested @ [page..<Suc mp])"
  using assms
proof (induction "mp - page" arbitrary: page results requested)
  case 0
  then have pg: "page = mp" by simp
  from 0 obtain its where it: "its \<noteq> []" "ep page = Inr (SearchData its (Some t))"
    by blast
  show ?case
    using fetchPagesFrom_search_step[of ep page its t results requested, OF it(2) it(1)] 0(3) pg
    by simp
next
  case (Suc k)
  then have lt: "page < mp" by simp
  from Suc obtain its where it: "its \<noteq> []" "ep page = Inr (SearchData its (Some t))"
    by blast
  have "k = mp - (page + 1)" using Suc(2) by simp
  moreover have "\<forall>p. page + 1 \<le> p \<and> p \<le> mp \<longrightarrow>
      (\<exists>its. its \<noteq> [] \<and> ep p = Inr (SearchData its (Some t)))"
    using Suc(3) by auto
  moreover have "page + 1 \<le> mp" using lt by simp
  ultimately obtain r where r:
    "fetchPagesFrom ep (results @ its) (page + 1) (requested @ [page]) =
       Some (Inr r, (requested @ [page]) @ [page + 1..<Suc mp])"
    using Suc(1)[of "page + 1" "results @ its" "requested @ [page]"] Suc(4) by blast
  have "[page..<Suc mp] = page # [page + 1..<Suc mp]"
    using lt by (simp add: upt_conv_Cons)
  then show ?case
    using fetchPagesFrom_search_step[of ep page its t results requested, OF it(2) it(1)] r lt Suc(4)
    by simp
qed

text \<open>
  C4.  When every page from 1 to \<open>ceil (min total_count 1000 / 100)\<close> of a search
  answers with a non-empty \<open>items\<close> array and the same positive \<open>total_count\<close>,
  \<open>fetchAllPages\<close> returns, and it has requested exactly these pages, each
  once, in order.  For \<open>total_count = 1500\<close> they are the pages 1 to 10.
\<close>

theorem fetchAllPages_search_page_count:
  assumes "0 < total_count"
    and "\<forall>p. 1 \<le> p \<and> p \<le> (min total_count 1000 + 99) div 100 \<longrightarrow>
           (\<exists>its. its \<noteq> [] \<and> ep p = Inr (SearchData its (Some total_count)))"
  shows "\<exists>results. fetchAllPages ep =
           Some (Inr results, [1..<Suc ((min total_count 1000 + 99) div 100)])"
proof -
  have "1 \<le> (min total_count 1000 + 99) div 100"
    using assms(1) by (cases "total_count \<le> 1000") (simp_all add: min_def)
  from fetchPagesFrom_search[OF assms(2) refl this, of "[]" "[]"] show ?thesis
    by (simp add: fetchAllPages_def)
qed

text \<open>The case of C4: 1500 results reported, 100 on every page, ten requests.\<close>

theorem fetchAllPages_search_page_count_witness:
  "\<exists>results. fetchAllPages (\<lambda>p. Inr (SearchData (replicate 100 p) (Some 1500))) =
     Some (Inr results, [1, 2, 3, 4, 5, 6, 7, 8, 9, 10])"
proof -
  have "\<exists>results. fetchAllPages (\<lambda>p. Inr (SearchData (replicate 100 p) (Some 1500))) =
      Some (Inr results, [1..<Suc ((min 1500 1000 + 99) div 100)])"
    by (rule fetchAllPages_search_page_count) simp_all
  moreover have "[1..<Suc ((min 1500 1000 + 99) div 100)] = [1, 2, 3, 4, 5, 6, 7, 8, 9, 10::nat]"
    by code_simp
  ultimately show ?thesis by simp
qed

section \<open>Properties of the BatchOrchestrator\<close>

lemma collectResults_callbacks: "callbacks (collectResults rs st) = callbacks st"
  by (induction rs st rule: collectResults.induct) simp_all

lemma collectResults_batches: "batches (collectResults rs st) = batches st"
  by (induction rs st rule: collectResults.induct) simp_all

lemma collectResults_prs:
  "prsWithIssues (collectResults rs st) = prsWithIssues st @ List.map_filter (\<lambda>r. r) rs"
  by (induction rs st rule: collectResults.induct) (simp_all add: List.map_filter_simps)

lemma those_map_Some:
  "\<forall>x \<in> set xs. g x \<noteq> None \<Longrightarrow> those (map g xs) = Some (map (\<lambda>x. the (g x)) xs)"
  by (induction xs) auto

lemma map_filter_append:
  "List.map_filter f (xs @ ys) = List.map_filter f xs @ List.map_filter f ys"
  by (simp add: List.map_filter_def)

lemma map_filter_map: "List.map_filter f (map g xs) = List.map_filter (\<lambda>x. f (g x)) xs"
  by (simp add: List.map_filter_def filter_map comp_def)

lemma map_filter_cong_set:
  "(\<And>x. x \<in> set xs \<Longrightarrow> f x = g x) \<Longrightarrow> List.map_filter f xs = List.map_filter g xs"
  by (induction xs) (auto simp: List.map_filter_simps split: option.splits)

text \<open>The state after the batch that starts at \<open>i\<close>, when all its pull requests are handled.\<close>

lemma batchLoop_step:
  assumes "i < length prs" and "\<forall>pr \<in> set prs. processPR a pr \<noteq> None"
  shows "batchLoop a prs i st =
     batchLoop a prs (i + BATCH_SIZE)
       (finishBatch (map (\<lambda>pr. the (processPR a pr)) (take BATCH_SIZE (drop i prs)))
          (length (take BATCH_SIZE (drop i prs))) (startBatch prs i st))"
proof -
  have "\<forall>pr \<in> set (take BATCH_SIZE (drop i prs)). processPR a pr \<noteq> None"
    using assms(2) by (meson in_set_dropD in_set_takeD)
  from those_map_Some[OF this] show ?thesis
    using assms(1) by (subst batchLoop.simps) (simp add: Let_def)
qed

lemma batchLoop_exit: "\<not> i < length prs \<Longrightarrow> batchLoop a prs i st = Some st"
  by (subst batchLoop.simps) simp

lemma finishBatch_callbacks:
  "callbacks (finishBatch rs n (startBatch prs i st)) = callbacks st @
     [\<lparr>status = AnalyzingPRs (i + 1) (min (i + BATCH_SIZE) (length prs)) (length prs),
       current = Some (i + length (take BATCH_SIZE (drop i prs))),
       total = Some (length prs)\<rparr>]"
  by (simp add: finishBatch_def startBatch_def Let_def collectResults_callbacks)

lemma finishBatch_batches:
  "batches (finishBatch rs n (startBatch prs i st)) =
     batches st @ [take BATCH_SIZE (drop i prs)]"
  by (simp add: finishBatch_def startBatch_def Let_def collectResults_batches)

lemma finishBatch_prs:
  "prsWithIssues (finishBatch (map f xs) n (startBatch prs i st)) =
     prsWithIssues st @ List.map_filter f xs"
  by (simp add: finishBatch_def startBatch_def Let_def collectResults_prs
      List.map_filter_def filter_map comp_def)

lemma batchLoop_total:
  assumes "\<forall>pr \<in> set prs. processPR a pr \<noteq> None"
  shows "\<exists>st'. batchLoop a prs i st = Some st' \<and>
     prsWithIssues st' =
       prsWithIssues st @ List.map_filter (\<lambda>pr. the (processPR a pr)) (drop i prs)"
proof (induction "length prs - i" arbitrary: i st rule: less_induct)
  case less
  show ?case
  proof (cases "i < length prs")
    case False
    then show ?thesis by (simp add: batchLoop_exit List.map_filter_simps)
  next
    case True
    let ?st1 = "finishBatch (map (\<lambda>pr. the (processPR a pr)) (take BATCH_SIZE (drop i prs)))
          (length (take BATCH_SIZE (drop i prs))) (startBatch prs i st)"
    from True have "length prs - (i + BATCH_SIZE) < length prs - i"
      by (simp add: BATCH_SIZE_def)
    from less[OF this, of ?st1] obtain st' where
      st': "batchLoop a prs (i + BATCH_SIZE) ?st1 = Some st'"
      "prsWithIssues st' = prsWithIssues ?st1 @
         List.map_filter (\<lambda>pr. the (processPR a pr)) (drop (i + BATCH_SIZE) prs)" by blast
    have "drop i prs = take BATCH_SIZE (drop i prs) @ drop (i + BATCH_SIZE) prs"
      by (metis add.commute append_take_drop_id drop_drop)
    then have "List.map_filter (\<lambda>pr. the (processPR a pr)) (drop i prs) =
        List.map_filter (\<lambda>pr. the (processPR a pr)) (take BATCH_SIZE (drop i prs)) @
        List.map_filter (\<lambda>pr. the (processPR a pr)) (drop (i + BATCH_SIZE) prs)"
      by (metis map_filter_append)
    then show ?thesis
      using st' batchLoop_step[OF True assms, of st] by (simp add: finishBatch_prs)
  qed
qed

lemma batchLoop_sorted:
  assumes "\<forall>pr \<in> set prs. processPR a pr \<noteq> None"
    and "sorted (List.map_filter current (callbacks st))"
    and "\<forall>c \<in> set (List.map_filter current (callbacks st)). c \<le> i"
    and "batchLoop a prs i st = Some st'"
  shows "sorted (List.map_filter current (callbacks st'))"
  using assms(2-)
proof (induction "length prs - i" arbitrary: i st rule: less_induct)
  case less
  show ?case
  proof (cases "i < length prs")
    case False
    then show ?thesis using less.prems by (simp add: batchLoop_exit)
  next
    case True
    let ?st1 = "finishBatch (map (\<lambda>pr. the (processPR a pr)) (take BATCH_SIZE (drop i prs)))
          (length (take BATCH_SIZE (drop i prs))) (startBatch prs i st)"
    have lt: "length prs - (i + BATCH_SIZE) < length prs - i"
      using True by (simp add: BATCH_SIZE_def)
    have cs: "List.map_filter current (callbacks ?st1) =
        List.map_filter current (callbacks st) @ [i + length (take BATCH_SIZE (drop i prs))]"
      by (simp add: finishBatch_callbacks map_filter_append List.map_filter_simps)
    have s: "sorted (List.map_filter current (callbacks ?st1))"
      unfolding cs using less.prems(1,2) by (auto simp: sorted_append)
    have b: "\<forall>c \<in> set (List.map_filter current (callbacks ?st1)). c \<le> i + BATCH_SIZE"
      unfolding cs using less.prems(2) by auto
    have "batchLoop a prs (i + BATCH_SIZE) ?st1 = Some st'"
      using less.prems(3) batchLoop_step[OF True assms(1), of st] by simp
    from less.hyps[OF lt s b this] show ?thesis .
  qed
qed

lemma batchLoop_45:
  assumes "\<forall>pr \<in> set prs. processPR a pr \<noteq> None" and "length prs = 45"
  shows "\<exists>st'. batchLoop a prs 0 st = Some st' \<and>
      map length (batches st') = map length (batches st) @ [20, 20, 5] \<and>
      List.map_filter current (callbacks st') =
        List.map_filter current (callbacks st) @ [20, 40, 45]"
proof -
  let ?f = "\<lambda>pr. the (processPR a pr)"
  let ?s1 = "finishBatch (map ?f (take BATCH_SIZE (drop 0 prs)))
          (length (take BATCH_SIZE (drop 0 prs))) (startBatch prs 0 st)"
  let ?s2 = "finishBatch (map ?f (take BATCH_SIZE (drop 20 prs)))
          (length (take BATCH_SIZE (drop 20 prs))) (startBatch prs 20 ?s1)"
  let ?s3 = "finishBatch (map ?f (take BATCH_SIZE (drop 40 prs)))
          (length (take BATCH_SIZE (drop 40 prs))) (startBatch prs 40 ?s2)"
  have "batchLoop a prs 0 st = batchLoop a prs 20 ?s1"
    using batchLoop_step[OF _ assms(1), of 0 st] assms(2) by (simp add: BATCH_SIZE_def)
  also have "\<dots> = batchLoop a prs 40 ?s2"
    using batchLoop_step[OF _ assms(1), of 20 ?s1] assms(2) by (simp add: BATCH_SIZE_def)
  also have "\<dots> = batchLoop a prs 60 ?s3"
    using batchLoop_step[OF _ assms(1), of 40 ?s2] assms(2) by (simp add: BATCH_SIZE_def)
  also have "\<dots> = Some ?s3"
    using assms(2) by (simp add: batchLoop_exit)
  finally have "batchLoop a prs 0 st = Some ?s3" .
  moreover have "map length (batches ?s3) = map length (batches st) @ [20, 20, 5]"
    using assms(2) by (simp add: finishBatch_batches BATCH_SIZE_def)
  moreover have "List.map_filter current (callbacks ?s3) =
        List.map_filter current (callbacks st) @ [20, 40, 45]"
    using assms(2)
    by (simp add: finishBatch_callbacks map_filter_append List.map_filter_simps BATCH_SIZE_def)
  ultimately show ?thesis by blast
qed

lemma processPR_terminates:
  "fetchPRComments a (pr_number pr) \<noteq> None \<Longrightarrow> processPR a pr \<noteq> None"
  by (auto simp: processPR_def processBody_def Let_def split: option.splits sum.splits)

lemma the_processPR:
  "fetchPRComments a (pr_number pr) \<noteq> None \<Longrightarrow>
   the (processPR a pr) =
     (case processBody a pr of Some (Inr (Some r)) \<Rightarrow> Some r | _ \<Rightarrow> None)"
  by (auto simp: processPR_def processBody_def Let_def split: option.splits sum.splits)

lemma fetchPRComments_rejected:
  "rejected (fetchAllPages (reviewsEp a n)) \<or> rejected (fetchAllPages (reviewCommentsEp a n))
     \<or> rejected (fetchAllPages (issueCommentsEp a n)) \<Longrightarrow> fetchPRComments a n = Some []"
  by (simp add: fetchPRComments_def Let_def)

text \<open>
  C5.  If one of the three fetches of a pull request fails, \<open>fetchPRComments\<close>
  returns the empty list.  An exception in the handling of a pull request
  gives \<open>null\<close> for that pull request.  When the search has succeeded and the
  comment fetches of every pull request found fail or return, the run returns
  a result and not an error, and its pull requests are those whose handling
  gave a result, in the order of the search: a pull request whose handling
  threw is left out like one without issues and changes nothing else.
\<close>

theorem per_pr_failures_are_isolated:
  "(rejected (fetchAllPages (reviewsEp a n)) \<or> rejected (fetchAllPages (reviewCommentsEp a n))
      \<or> rejected (fetchAllPages (issueCommentsEp a n)) \<longrightarrow> fetchPRComments a n = Some [])
   \<and> (processBody a pr = Some (Inl e) \<longrightarrow> processPR a pr = Some None)
   \<and> (fetchAllPages (searchEp a) = Some (Inr found, l)
        \<and> (\<forall>item \<in> set found. fetchPRComments a (si_number item) \<noteq> None) \<longrightarrow>
      (\<exists>res st. analyzePRs a = Some (Inr res, st) \<and>
         pullRequests res =
           List.map_filter
             (\<lambda>item. case processBody a (toPR item) of
                       Some (Inr (Some r)) \<Rightarrow> Some r | _ \<Rightarrow> None)
             found))"
proof (intro conjI impI)
  assume "rejected (fetchAllPages (reviewsEp a n))
      \<or> rejected (fetchAllPages (reviewCommentsEp a n))
      \<or> rejected (fetchAllPages (issueCommentsEp a n))"
  then show "fetchPRComments a n = Some []" by (rule fetchPRComments_rejected)
next
  assume "processBody a pr = Some (Inl e)"
  then show "processPR a pr = Some None" by (simp add: processPR_def)
next
  assume h: "fetchAllPages (searchEp a) = Some (Inr found, l)
        \<and> (\<forall>item \<in> set found. fetchPRComments a (si_number item) \<noteq> None)"
  let ?prs = "map toPR found"
  let ?g = "\<lambda>item. case processBody a (toPR item) of
                       Some (Inr (Some r)) \<Rightarrow> Some r | _ \<Rightarrow> None"
  have f: "\<forall>pr \<in> set ?prs. fetchPRComments a (pr_number pr) \<noteq> None"
    using h by (auto simp: toPR_def)
  then have t: "\<forall>pr \<in> set ?prs. processPR a pr \<noteq> None"
    using processPR_terminates by blast
  define st0 where "st0 = initialRun\<lparr>callbacks := callbacks initialRun @
                        [\<lparr>status = FoundClosedPRs (length ?prs), current = None,
                          total = Some (length ?prs)\<rparr>]\<rparr>"
  from batchLoop_total[OF t, of 0 st0] obtain st' where
    st': "batchLoop a ?prs 0 st0 = Some st'"
      "prsWithIssues st' =
         prsWithIssues st0 @ List.map_filter (\<lambda>pr. the (processPR a pr)) ?prs"
    by auto
  have "List.map_filter (\<lambda>pr. the (processPR a pr)) ?prs = List.map_filter ?g found"
    unfolding map_filter_map using f by (intro map_filter_cong_set the_processPR) simp
  then have "prsWithIssues st' = List.map_filter ?g found"
    using st'(2) by (simp add: st0_def initialRun_def)
  then show "\<exists>res st. analyzePRs a = Some (Inr res, st) \<and>
         pullRequests res = List.map_filter ?g found"
    using h st'(1) by (simp add: analyzePRs_def Let_def st0_def)
qed

text \<open>
  C5 on the example: the reviews of pull request 2 cannot be fetched, so its
  comments are empty; pull request 3 has an issue but no user, so its handling
  throws; the run returns the result of pull request 1 alone.
\<close>

theorem per_pr_failures_are_isolated_witness:
  "rejected (fetchAllPages (reviewsEp exampleApi 2))
   \<and> fetchPRComments exampleApi 2 = Some []
   \<and> processBody exampleApi (toPR (exampleItem 3 None)) = Some (Inl TypeError)
   \<and> processPR exampleApi (toPR (exampleItem 3 None)) = Some None
   \<and> (\<exists>res st. analyzePRs exampleApi = Some (Inr res, st)
         \<and> map number (pullRequests res) = [1])"
proof -
  let ?found = "[exampleItem 1 (Some \<lparr>login = js ''dev''\<rparr>),
                 exampleItem 2 (Some \<lparr>login = js ''dev''\<rparr>), exampleItem 3 None]"
  let ?g = "\<lambda>item. case processBody exampleApi (toPR item) of
                       Some (Inr (Some r)) \<Rightarrow> Some r | _ \<Rightarrow> None"
  have h1: "rejected (fetchAllPages (reviewsEp exampleApi 2))"
    by code_simp
  have h2: "processBody exampleApi (toPR (exampleItem 3 None)) = Some (Inl TypeError)"
    by code_simp
  have h3: "fetchAllPages (searchEp exampleApi) = Some (Inr ?found, [1])
        \<and> (\<forall>item \<in> set ?found. fetchPRComments exampleApi (si_number item) \<noteq> None)"
    by code_simp
  have h4: "map number (List.map_filter ?g ?found) = [1]"
    by code_simp
  from per_pr_failures_are_isolated[of exampleApi 2 "toPR (exampleItem 3 None)" TypeError
      ?found "[1]"] h1 h2 h3 h4
  show ?thesis by auto
qed

text \<open>
  C9.  When the search has succeeded and the comment fetches of every pull
  request found fail or return, the run returns, and the \<open>current\<close> values of
  its progress callbacks, in the order of the calls, never decrease.  For 45
  pull requests the batches have the sizes 20, 20 and 5, and the values are 20,
  40 and 45.
\<close>

theorem batches_of_45_and_progress_monotone:
  "fetchAllPages (searchEp a) = Some (Inr found, l)
     \<and> (\<forall>item \<in> set found. fetchPRComments a (si_number item) \<noteq> None) \<longrightarrow>
   (\<exists>out st. analyzePRs a = Some (out, st)
      \<and> sorted (List.map_filter current (callbacks st))
      \<and> (length found = 45 \<longrightarrow>
           map length (batches st) = [20, 20, 5]
           \<and> List.map_filter current (callbacks st) = [20, 40, 45]))"
proof
  assume h: "fetchAllPages (searchEp a) = Some (Inr found, l)
        \<and> (\<forall>item \<in> set found. fetchPRComments a (si_number item) \<noteq> None)"
  let ?prs = "map toPR found"
  have "\<forall>pr \<in> set ?prs. fetchPRComments a (pr_number pr) \<noteq> None"
    using h by (auto simp: toPR_def)
  then have t: "\<forall>pr \<in> set ?prs. processPR a pr \<noteq> None"
    using processPR_terminates by blast
  define st0 where "st0 = initialRun\<lparr>callbacks := callbacks initialRun @
                        [\<lparr>status = FoundClosedPRs (length ?prs), current = None,
                          total = Some (length ?prs)\<rparr>]\<rparr>"
  have c0: "List.map_filter current (callbacks st0) = []" "batches st0 = []"
    by (simp_all add: st0_def initialRun_def List.map_filter_simps)
  from batchLoop_total[OF t, of 0 st0] obtain st' where
    st': "batchLoop a ?prs 0 st0 = Some st'"
    by auto
  have s: "sorted (List.map_filter current (callbacks st'))"
    by (rule batchLoop_sorted[OF t _ _ st']) (simp_all add: c0)
  have r: "analyzePRs a =
      Some (Inr \<lparr>summary = \<lparr>totalPRs = length ?prs,
                            totalPRsWithActionableIssues = length (prsWithIssues st'),
                            totalIssues = totalActionableIssues st'\<rparr>,
                 pullRequests = prsWithIssues st'\<rparr>,
            st'\<lparr>callbacks := callbacks st' @
                 [\<lparr>status = ProcessingResults, current = None, total = None\<rparr>]\<rparr>)"
    using h st' by (simp add: analyzePRs_def Let_def st0_def)
  have "length found = 45 \<longrightarrow> map length (batches st') = [20, 20, 5]
           \<and> List.map_filter current (callbacks st') = [20, 40, 45]"
  proof
    assume "length found = 45"
    then have "length ?prs = 45" by simp
    from batchLoop_45[OF t this, of st0] st'
    show "map length (batches st') = [20, 20, 5]
           \<and> List.map_filter current (callbacks st') = [20, 40, 45]"
      by (simp add: c0)
  qed
  then show "\<exists>out st. analyzePRs a = Some (out, st)
      \<and> sorted (List.map_filter current (callbacks st))
      \<and> (length found = 45 \<longrightarrow>
           map length (batches st) = [20, 20, 5]
           \<and> List.map_filter current (callbacks st) = [20, 40, 45])"
    using r s by (simp add: map_filter_append List.map_filter_simps)
qed

text \<open>C9 on the example of 45 pull requests.\<close>

theorem batches_of_45_and_progress_monotone_witness:
  "\<exists>out st. analyzePRs batchApi = Some (out, st)
     \<and> sorted (List.map_filter current (callbacks st))
     \<and> map length (batches st) = [20, 20, 5]
     \<and> List.map_filter current (callbacks st) = [20, 40, 45]"
proof -
  let ?found = "map (\<lambda>n. exampleItem n (Some \<lparr>login = js ''dev''\<rparr>)) [1..<46]"
  have h1: "fetchAllPages (searchEp batchApi) = Some (Inr ?found, [1])"
    by code_simp
  have h2: "\<forall>item \<in> set ?found. fetchPRComments batchApi (si_number item) \<noteq> None"
    by code_simp
  have h3: "length ?found = 45" by simp
  have "\<exists>out st. analyzePRs batchApi = Some (out, st)
      \<and> sorted (List.map_filter current (callbacks st))
      \<and> (length ?found = 45 \<longrightarrow>
           map length (batches st) = [20, 20, 5]
           \<and> List.map_filter current (callbacks st) = [20, 40, 45])"
    by (rule mp[OF batches_of_45_and_progress_monotone[of batchApi ?found "[1]"]
          conjI[OF h1 h2]])
  then obtain out st where o: "analyzePRs batchApi = Some (out, st)"
      "sorted (List.map_filter current (callbacks st))"
      "length ?found = 45 \<longrightarrow>
           map length (batches st) = [20, 20, 5]
           \<and> List.map_filter current (callbacks st) = [20, 40, 45]"
    by (elim exE conjE)
  from o(3) h3 have xy: "map length (batches st) = [20, 20, 5]
           \<and> List.map_filter current (callbacks st) = [20, 40, 45]"
    by (rule mp)
  show ?thesis
  proof (intro exI conjI)
    show "analyzePRs batchApi = Some (out, st)" by (rule o(1))
    show "sorted (List.map_filter current (callbacks st))" by (rule o(2))
    show "map length (batches st) = [20, 20, 5]" using xy by (rule conjunct1)
    show "List.map_filter current (callbacks st) = [20, 40, 45]" using xy by (rule conjunct2)
  qed
qed

section \<open>Properties of the SimilarityClusterer\<close>

lemma split_not_Nil: "split sep s \<noteq> []"
  by (induction s) (auto split: list.splits)

lemma tokens_finite_nonempty: "finite (tokens t) \<and> tokens t \<noteq> {}"
  by (simp add: tokens_def split_not_Nil)

text \<open>
  C6.  The similarity of two titles does not depend on their order, and the
  similarity of a title with itself is 1.  The token set of a title is never
  empty (\<open>split\<close> returns at least one string), so the second part holds for
  every title.
\<close>

theorem similarity_symmetric_and_reflexive:
  "calculateSimilarity a b = calculateSimilarity b a \<and> calculateSimilarity a a = 1"
proof
  have "{w \<in> tokens a. w \<in> tokens b} = {w \<in> tokens b. w \<in> tokens a}" by auto
  then show "calculateSimilarity a b = calculateSimilarity b a"
    by (simp add: calculateSimilarity_def Let_def Un_commute)
next
  have "card (tokens a) \<noteq> 0" using tokens_finite_nonempty[of a] by simp
  then show "calculateSimilarity a a = 1"
    by (simp add: calculateSimilarity_def Let_def)
qed

text \<open>
  C7 fails: the titles \<open>!!!\<close> and \<open> ? \<close> both normalize to the empty string, and
  their similarity is not 0.
\<close>

theorem similarity_of_empty_titles_counterexample:
  "calculateSimilarity (js ''!!!'') (js '' ? '') \<noteq> 0"
  by code_simp

text \<open>
  C7, amended.  Two titles that normalize to the empty string have the
  similarity 1: each has the empty string as its one token.
\<close>

theorem similarity_of_empty_titles:
  "normalize a = [] \<and> normalize b = [] \<longrightarrow> calculateSimilarity a b = 1"
  by (simp add: calculateSimilarity_def tokens_def Let_def)

text \<open>C7, amended, on the titles of the counterexample.\<close>

theorem similarity_of_empty_titles_witness:
  "normalize (js ''!!!'') = [] \<and> normalize (js '' ? '') = []
   \<and> calculateSimilarity (js ''!!!'') (js '' ? '') = 1"
proof -
  have h: "normalize (js ''!!!'') = [] \<and> normalize (js '' ? '') = []" by code_simp
  with similarity_of_empty_titles[of "js ''!!!''" "js '' ? ''"] show ?thesis by simp
qed

section \<open>Properties of the FilterEngine\<close>
















section \<open>Properties of the ManualOverrideStore\<close>

text \<open>
  C3.  An issue that a resolved thread marked as accepted; no override is
  stored.  After two toggles on its URL the issue is not accepted and has no
  acceptance method: the second toggle writes the default instead of the
  state the issue had before the first.
\<close>

theorem toggle_twice_loses_resolved_state:
  "acceptanceOf (snd (toggleManualAcceptance (js ''https://github.com/o/r/pull/1#discussion_r7'')
       (js ''2025-01-03T00:00:00.000Z'')
       (toggleManualAcceptance (js ''https://github.com/o/r/pull/1#discussion_r7'')
          (js ''2025-01-02T00:00:00.000Z'')
          (Map.empty,
           exampleData [exampleResult 1
              [exampleIssue (js ''Avoid using var'') (js ''Major'')
                 (js ''https://github.com/o/r/pull/1#discussion_r7'') True
                 (Some (js ''graphql''))]]))))
   = [(False, None)]"
  by code_simp

lemma toggle_keeps_accepted:
  assumes "\<forall>u ov. state u = Some ov \<longrightarrow>
             ov_accepted ov \<and> ov_acceptanceMethod ov = js ''manual''"
  shows "\<forall>u ov. fst (toggleManualAcceptance v now (state, data)) u = Some ov \<longrightarrow>
           ov_accepted ov \<and> ov_acceptanceMethod ov = js ''manual''"
  using assms by (auto simp: toggleManualAcceptance_def Let_def split: if_splits)

lemma toggles_keep_accepted:
  assumes "\<forall>u ov. fst sd u = Some ov \<longrightarrow>
             ov_accepted ov \<and> ov_acceptanceMethod ov = js ''manual''"
  shows "\<forall>u ov. fst (fold (\<lambda>t. toggleManualAcceptance (fst t) (snd t)) toggles sd) u = Some ov
           \<longrightarrow> ov_accepted ov \<and> ov_acceptanceMethod ov = js ''manual''"
  using assms
proof (induction toggles arbitrary: sd)
  case Nil
  then show ?case by simp
next
  case (Cons t toggles)
  obtain state data where sd: "sd = (state, data)" by (cases sd)
  have "\<forall>u ov. fst (toggleManualAcceptance (fst t) (snd t) sd) u = Some ov \<longrightarrow>
           ov_accepted ov \<and> ov_acceptanceMethod ov = js ''manual''"
    unfolding sd by (rule toggle_keeps_accepted) (use Cons.prems sd in simp)
  from Cons.IH[OF this] show ?case by simp
qed

text \<open>
  C10.  After any sequence of toggles (each a URL and the time of the click)
  from the empty store, every entry of the store has \<open>accepted = true\<close> and the
  method \<open>manual\<close>, and applying the store to an issue with the URL of an entry
  makes the issue accepted.
\<close>

theorem overrides_only_record_acceptance:
  "fst (fold (\<lambda>t. toggleManualAcceptance (fst t) (snd t)) toggles (Map.empty, data)) u = Some ov
   \<longrightarrow> ov_accepted ov \<and> ov_acceptanceMethod ov = js ''manual''
       \<and> (\<forall>i. url i = u \<longrightarrow>
             accepted (applyOverride
               (fst (fold (\<lambda>t. toggleManualAcceptance (fst t) (snd t)) toggles
                       (Map.empty, data))) i))"
proof
  let ?st = "fst (fold (\<lambda>t. toggleManualAcceptance (fst t) (snd t)) toggles (Map.empty, data))"
  assume a: "?st u = Some ov"
  have "\<forall>u ov. ?st u = Some ov \<longrightarrow> ov_accepted ov \<and> ov_acceptanceMethod ov = js ''manual''"
    by (rule toggles_keep_accepted) simp
  with a have "ov_accepted ov \<and> ov_acceptanceMethod ov = js ''manual''" by blast
  then show "ov_accepted ov \<and> ov_acceptanceMethod ov = js ''manual''
       \<and> (\<forall>i. url i = u \<longrightarrow> accepted (applyOverride ?st i))"
    using a by (simp add: applyOverride_def)
qed

text \<open>C10 on an example: three toggles leave one entry, for the second URL.\<close>

theorem overrides_only_record_acceptance_witness:
  "fst (fold (\<lambda>t. toggleManualAcceptance (fst t) (snd t))
          [(js ''u1'', js ''t1''), (js ''u2'', js ''t2''), (js ''u1'', js ''t3'')]
          (Map.empty, exampleData [])) (js ''u2'')
     = Some \<lparr>ov_accepted = True, ov_acceptanceMethod = js ''manual'', ov_timestamp = js ''t2''\<rparr>
   \<and> ov_accepted
       \<lparr>ov_accepted = True, ov_acceptanceMethod = js ''manual'', ov_timestamp = js ''t2''\<rparr>
   \<and> accepted (applyOverride
        (fst (fold (\<lambda>t. toggleManualAcceptance (fst t) (snd t))
               [(js ''u1'', js ''t1''), (js ''u2'', js ''t2''), (js ''u1'', js ''t3'')]
               (Map.empty, exampleData [])))
        (exampleIssue (js ''Avoid using var'') (js ''Major'') (js ''u2'') False None))"
proof -
  have h: "fst (fold (\<lambda>t. toggleManualAcceptance (fst t) (snd t))
          [(js ''u1'', js ''t1''), (js ''u2'', js ''t2''), (js ''u1'', js ''t3'')]
          (Map.empty, exampleData [])) (js ''u2'')
     = Some \<lparr>ov_accepted = True, ov_acceptanceMethod = js ''manual'',
             ov_timestamp = js ''t2''\<rparr>"
    by code_simp
  have u: "url (exampleIssue (js ''Avoid using var'') (js ''Major'') (js ''u2'') False None)
      = js ''u2''"
    by (simp add: exampleIssue_def)
  from overrides_only_record_acceptance[of
      "[(js ''u1'', js ''t1''), (js ''u2'', js ''t2''), (js ''u1'', js ''t3'')]"
      "exampleData []" "js ''u2''"
      "\<lparr>ov_accepted = True, ov_acceptanceMethod = js ''manual'', ov_timestamp = js ''t2''\<rparr>"]
    h u
  show ?thesis by blast
qed

end
